theory Spec2Isabelle
  imports Complex_Main
begin

section \<open>The controlled-oscillator notebook: the feedback function\<close>

text \<open>
  The code cell "Step 1: Create the network" of
  \<^verbatim>\<open>docs/examples/dynamics/controlled-oscillator.ipynb\<close>:
  \<^verbatim>\<open>
  tau = 0.1  # Post-synaptic time constant for feedback
  w_max = 10  # Maximum frequency is w_max/(2*pi)
  ...
      def feedback(x):
          x0, x1, w = x  # These are the three variables stored in the ensemble
          return x0 + w * w_max * tau * x1, x1 - w * w_max * tau * x0, 0
  \<close>
  Python's numbers are modelled as exact reals. The two notebook-level names \<open>tau\<close> and
  \<open>w_max\<close> are assigned once, before \<open>feedback\<close> is defined, and are constants here. The
  tuple unpacking \<open>x0, x1, w = x\<close> raises \<open>ValueError\<close> when \<open>x\<close> does not have exactly three
  entries; that is the only way the body can fail on a sequence of numbers.
  \<open>ShapeError\<close> is not raised by the notebook's own code: it marks, in the model of a
  connection below, a value that does not fit the input it is wired to.
\<close>

datatype error = ValueError | ShapeError

definition tau :: real where
  "tau = 1 / 10"

definition w_max :: real where
  "w_max = 10"

fun feedback :: "real list \<Rightarrow> error + real \<times> real \<times> real" where
  "feedback [x0, x1, w] = Inr (x0 + w * w_max * tau * x1, x1 - w * w_max * tau * x0, 0)"
| "feedback _ = Inl ValueError"

text \<open>
  The feedback function as the notebook's first markdown cell derives it (and as the
  specification quotes it):
  \<^verbatim>\<open>
  f_feedback(x) = [ x_0 - tau * omega * omega_max * x_1,
                    x_1 + tau * omega * omega_max * x_0,
                    0 ]
  \<close>
\<close>

definition f_feedback :: "real \<times> real \<times> real \<Rightarrow> real \<times> real \<times> real" where
  "f_feedback x = (case x of (x0, x1, \<omega>) \<Rightarrow>
     (x0 - tau * \<omega> * w_max * x1, x1 + tau * \<omega> * w_max * x0, 0))"

section \<open>The controlled-oscillator notebook: the network it builds\<close>

text \<open>
  The objects the notebook creates inside \<open>model\<close>, with the arguments it passes:
  \<^verbatim>\<open>
  oscillator = nengo.Ensemble(500, dimensions=3, radius=1.7)
  nengo.Connection(oscillator, oscillator, function=feedback, synapse=tau)
  frequency = nengo.Ensemble(100, dimensions=1)
  nengo.Connection(frequency, oscillator[2])
  initial = nengo.Node(Piecewise({0: [1, 0, 0], 0.15: [0, 0, 0]}))
  nengo.Connection(initial, oscillator)
  input_frequency = nengo.Node(Piecewise({0: 1, 1: 0.5, 2: 0, 3: -0.5, 4: -1}))
  nengo.Connection(input_frequency, frequency)
  oscillator_probe = nengo.Probe(oscillator, synapse=0.03)
  \<close>
  An argument the notebook does not pass is \<open>None\<close>: its value is the library's default.
  A dictionary literal is the association list of its entries, in the order written.
\<close>

record ensemble =
  n_neurons :: nat
  dimensions :: nat
  radius :: "real option"

definition oscillator :: ensemble where
  "oscillator = \<lparr>n_neurons = 500, dimensions = 3, radius = Some (17 / 10)\<rparr>"

definition frequency :: ensemble where
  "frequency = \<lparr>n_neurons = 100, dimensions = 1, radius = None\<rparr>"

definition initial :: "(real \<times> real list) list" where
  "initial = [(0, [1, 0, 0]), (15 / 100, [0, 0, 0])]"

definition input_frequency :: "(real \<times> real) list" where
  "input_frequency = [(0, 1), (1, 1 / 2), (2, 0), (3, - (1 / 2)), (4, - 1)]"

text \<open>The four objects of the network, as the connections and the probe refer to them.\<close>

datatype obj = Oscillator | Frequency | Initial | Input_frequency

record connection =
  pre :: obj
  post :: obj
  post_slice :: "nat option"
  conn_function :: "(real list \<Rightarrow> error + real list) option"
  synapse :: "real option"

text \<open>The tuple \<open>feedback\<close> returns, read as the vector the connection carries.\<close>

definition as_vector :: "real \<times> real \<times> real \<Rightarrow> real list" where
  "as_vector r = (case r of (a, b, c) \<Rightarrow> [a, b, c])"

definition feedback_vector :: "real list \<Rightarrow> error + real list" where
  "feedback_vector x = (case feedback x of Inl e \<Rightarrow> Inl e | Inr r \<Rightarrow> Inr (as_vector r))"

definition recurrent :: connection where
  "recurrent = \<lparr>pre = Oscillator, post = Oscillator, post_slice = None,
     conn_function = Some feedback_vector, synapse = Some tau\<rparr>"

definition frequency_to_oscillator :: connection where
  "frequency_to_oscillator = \<lparr>pre = Frequency, post = Oscillator, post_slice = Some 2,
     conn_function = None, synapse = None\<rparr>"

definition initial_to_oscillator :: connection where
  "initial_to_oscillator = \<lparr>pre = Initial, post = Oscillator, post_slice = None,
     conn_function = None, synapse = None\<rparr>"

definition input_to_frequency :: connection where
  "input_to_frequency = \<lparr>pre = Input_frequency, post = Frequency, post_slice = None,
     conn_function = None, synapse = None\<rparr>"

definition connections :: "connection list" where
  "connections =
     [recurrent, frequency_to_oscillator, initial_to_oscillator, input_to_frequency]"

record probe =
  target :: obj
  attr :: "string option"
  probe_synapse :: "real option"

definition oscillator_probe :: probe where
  "oscillator_probe = \<lparr>target = Oscillator, attr = None, probe_synapse = Some (3 / 100)\<rparr>"

section \<open>The library's objects, as far as the specification describes them\<close>


fun size_in :: "obj \<Rightarrow> nat" where
  "size_in Oscillator = dimensions oscillator"
| "size_in Frequency = dimensions frequency"
| "size_in Initial = 0"
| "size_in Input_frequency = 0"

fun produces :: "obj \<Rightarrow> real list \<Rightarrow> bool" where
  "produces Oscillator v = (length v = dimensions oscillator)"
| "produces Frequency v = (length v = dimensions frequency)"
| "produces Initial v = (v \<in> set (map snd initial))"
| "produces Input_frequency v = (v \<in> set (map (\<lambda>(t, y). [y]) input_frequency))"

text \<open>
  Modelled from the spec: the library's \<open>Piecewise\<close> process is not among the sources. It
  is taken as a piecewise-constant signal: at time \<open>t\<close> it has the value the table gives for
  the latest breakpoint that is not after \<open>t\<close>, and no table value before the first
  breakpoint. \<open>latest\<close> returns that breakpoint together with its value.
\<close>

fun latest :: "(real \<times> 'a) list \<Rightarrow> real \<Rightarrow> (real \<times> 'a) option" where
  "latest [] t = None"
| "latest ((k, v) # kvs) t =
     (case latest kvs t of
        None \<Rightarrow> if k \<le> t then Some (k, v) else None
      | Some (k', v') \<Rightarrow> if k \<le> t \<and> k' < k then Some (k, v) else Some (k', v'))"

definition piecewise :: "(real \<times> 'a) list \<Rightarrow> real \<Rightarrow> 'a option" where
  "piecewise table t = map_option snd (latest table t)"

text \<open>
  Modelled from the spec: the library's \<open>Connection\<close> is not among the sources. The
  glossary has it "wiring one component's output, optionally through a function and a
  temporal filter, into another component's input". \<open>delivered c v\<close> is what connection
  \<open>c\<close> hands to the input of its target when its source gives out \<open>v\<close>, before the temporal
  filter: \<open>v\<close> through the connection's function, if it has one, laid into the target's
  input vector. A connection into a single index (\<open>oscillator[2]\<close>) carries one number to
  that entry and nothing to the others.
\<close>

definition place :: "nat option \<Rightarrow> nat \<Rightarrow> real list \<Rightarrow> error + real list" where
  "place sl n u =
     (case sl of
        None \<Rightarrow> if length u = n then Inr u else Inl ShapeError
      | Some i \<Rightarrow>
          (case u of
             [y] \<Rightarrow> if i < n then Inr ((replicate n 0)[i := y]) else Inl ShapeError
           | _ \<Rightarrow> Inl ShapeError))"

definition delivered :: "connection \<Rightarrow> real list \<Rightarrow> error + real list" where
  "delivered c v =
     (case (case conn_function c of None \<Rightarrow> Inr v | Some f \<Rightarrow> f v) of
        Inl e \<Rightarrow> Inl e
      | Inr u \<Rightarrow> place (post_slice c) (size_in (post c)) u)"



section \<open>The notebook documents\<close>

text \<open>
  A notebook file is a JSON document. The two documents are given as their JSON values:
  objects keep the order of their keys in the file, strings are the decoded strings. The
  only numbers in either document are integers. Inside a string, a backslash, an
  apostrophe, a double quote and a backquote are written by their codes (\<open>CHR 0x5C\<close>,
  \<open>CHR 0x27\<close>, \<open>CHR 0x22\<close>, \<open>CHR 0x60\<close>).
\<close>

datatype json =
    JNull
  | JBool bool
  | JInt int
  | JStr string
  | JArr "json list"
  | JObj "(string \<times> json) list"

fun field :: "string \<Rightarrow> json \<Rightarrow> json option" where
  "field k (JObj kvs) = map_of kvs k"
| "field k _ = None"

fun str_of :: "json \<Rightarrow> string" where
  "str_of (JStr s) = s"
| "str_of _ = []"


definition cells :: "json \<Rightarrow> json list" where
  "cells nb = (case field ''cells'' nb of Some (JArr cs) \<Rightarrow> cs | _ \<Rightarrow> [])"

definition source :: "json \<Rightarrow> string list" where
  "source c = (case field ''source'' c of Some (JArr ls) \<Rightarrow> map str_of ls | _ \<Rightarrow> [])"

definition is_code :: "json \<Rightarrow> bool" where
  "is_code c = (field ''cell_type'' c = Some (JStr ''code''))"

definition is_markdown :: "json \<Rightarrow> bool" where
  "is_markdown c = (field ''cell_type'' c = Some (JStr ''markdown''))"



text \<open>The lines of a notebook's executable code: the sources of its code cells, in order.\<close>

definition code_lines :: "json \<Rightarrow> string list" where
  "code_lines nb = concat (map source (filter is_code (cells nb)))"

definition markdown_lines :: "json \<Rightarrow> string list" where
  "markdown_lines nb = concat (map source (filter is_markdown (cells nb)))"

definition starts_with :: "string \<Rightarrow> string \<Rightarrow> bool" where
  "starts_with p s = (take (length p) s = p)"

fun contains :: "string \<Rightarrow> string \<Rightarrow> bool" where
  "contains p [] = (p = [])"
| "contains p (c # cs) = (starts_with p (c # cs) \<or> contains p cs)"

definition lstrip :: "string \<Rightarrow> string" where
  "lstrip s = dropWhile (\<lambda>c. c = CHR '' '') s"

text \<open>
  The name a line defines as a function (\<open>def name(...)\<close>), and the functions a notebook's
  code defines.
\<close>

definition def_name :: "string \<Rightarrow> string option" where
  "def_name l =
     (if starts_with ''def '' (lstrip l)
      then Some (takeWhile (\<lambda>c. c \<noteq> CHR ''('') (drop 4 (lstrip l)))
      else None)"

definition defined_functions :: "json \<Rightarrow> string list" where
  "defined_functions nb = List.map_filter def_name (code_lines nb)"

text \<open>The lines of a notebook's code that assign to the name \<open>n\<close> (\<open>n = ...\<close>).\<close>

definition assignments :: "string \<Rightarrow> json \<Rightarrow> string list" where
  "assignments n nb = filter (\<lambda>l. starts_with (n @ '' = '') (lstrip l)) (code_lines nb)"

subsection \<open>docs/examples/dynamics/controlled-oscillator.ipynb\<close>

definition oscillator_cell_0 :: json where
  "oscillator_cell_0 = JObj [
      (''cell_type'', JStr ''markdown''),
      (''metadata'', JObj []),
      (''source'', JArr [
        JStr ''# Controlled oscillator\<newline>'',
        JStr ''\<newline>'',
        JStr ''The controlled oscillator is an oscillator\<newline>'',
        JStr ''with an extra input that controls the frequency of the oscillation.\<newline>'',
        JStr ''\<newline>'',
        JStr ''To implement a basic oscillator,\<newline>'',
        JStr ''we would use a neural ensemble of two dimensions\<newline>'',
        JStr ''that has the following dynamics:\<newline>'',
        JStr ''\<newline>'',
        JStr ''$$\<newline>'',
        JStr ([CHR 0x5C] @ ''dot{x} = '' @ [CHR 0x5C] @ ''begin{bmatrix} 0 && - '' @ [CHR 0x5C] @ ''omega '' @ [CHR 0x5C, CHR 0x5C] @ '' '' @ [CHR 0x5C] @ ''omega && 0 '' @ [CHR 0x5C] @ ''end{bmatrix} x\<newline>''),
        JStr ''$$\<newline>'',
        JStr ''\<newline>'',
        JStr (''where the frequency of oscillation is $'' @ [CHR 0x5C] @ ''omega '' @ [CHR 0x5C] @ ''over {2 '' @ [CHR 0x5C] @ ''pi}$ Hz.\<newline>''),
        JStr ''\<newline>'',
        JStr ''We need the neurons to represent three variables,\<newline>'',
        JStr (''$x_0$, $x_1$, and $'' @ [CHR 0x5C] @ ''omega$.\<newline>''),
        JStr ''According the the dynamics principle of the NEF,\<newline>'',
        JStr ''in order to implement some particular dynamics,\<newline>'',
        JStr ''we need to convert this dynamics equation into a feedback function:\<newline>'',
        JStr ''\<newline>'',
        JStr ''$$\<newline>'',
        JStr ([CHR 0x5C] @ ''begin{align}\<newline>''),
        JStr (''  '' @ [CHR 0x5C] @ ''dot{x} &= f(x) '' @ [CHR 0x5C, CHR 0x5C] @ ''\<newline>''),
        JStr (''  &'' @ [CHR 0x5C] @ ''implies f_{feedback}(x) = x + '' @ [CHR 0x5C] @ ''tau f(x)\<newline>''),
        JStr ([CHR 0x5C] @ ''end{align}\<newline>''),
        JStr ''$$\<newline>'',
        JStr ''\<newline>'',
        JStr (''where $'' @ [CHR 0x5C] @ ''tau$ is the post-synaptic time constant of the feedback connection.\<newline>''),
        JStr ''\<newline>'',
        JStr ''In this case, the feedback function to be computed is\<newline>'',
        JStr ''\<newline>'',
        JStr ''$$\<newline>'',
        JStr ([CHR 0x5C] @ ''begin{align}\<newline>''),
        JStr (''  f_{feedback}(x) &= x + '' @ [CHR 0x5C] @ ''tau\<newline>''),
        JStr (''  '' @ [CHR 0x5C] @ ''begin{bmatrix}\<newline>''),
        JStr (''    0 && - '' @ [CHR 0x5C] @ ''omega '' @ [CHR 0x5C, CHR 0x5C] @ ''\<newline>''),
        JStr (''    '' @ [CHR 0x5C] @ ''omega && 0\<newline>''),
        JStr (''  '' @ [CHR 0x5C] @ ''end{bmatrix}\<newline>''),
        JStr (''  x '' @ [CHR 0x5C, CHR 0x5C] @ ''\<newline>''),
        JStr ''  &=\<newline>'',
        JStr (''  '' @ [CHR 0x5C] @ ''begin{bmatrix}\<newline>''),
        JStr (''    x_0 - '' @ [CHR 0x5C] @ ''tau '' @ [CHR 0x5C] @ ''cdot '' @ [CHR 0x5C] @ ''omega '' @ [CHR 0x5C] @ ''cdot x_1 '' @ [CHR 0x5C, CHR 0x5C] @ ''\<newline>''),
        JStr (''    x_1 + '' @ [CHR 0x5C] @ ''tau '' @ [CHR 0x5C] @ ''cdot '' @ [CHR 0x5C] @ ''omega '' @ [CHR 0x5C] @ ''cdot x_0\<newline>''),
        JStr (''  '' @ [CHR 0x5C] @ ''end{bmatrix}\<newline>''),
        JStr ([CHR 0x5C] @ ''end{align}\<newline>''),
        JStr ''$$\<newline>'',
        JStr ''\<newline>'',
        JStr ''Since the neural ensemble represents all three variables\<newline>'',
        JStr ''but the dynamics only affects the first two ($x_0$, $x_1$),\<newline>'',
        JStr ''we need the feedback function to not affect that last variable.\<newline>'',
        JStr ''We do this by adding a zero to the feedback function.\<newline>'',
        JStr ''\<newline>'',
        JStr ''$$\<newline>'',
        JStr (''f_{feedback}(x) = '' @ [CHR 0x5C] @ ''begin{bmatrix}\<newline>''),
        JStr (''  x_0 - '' @ [CHR 0x5C] @ ''tau '' @ [CHR 0x5C] @ ''cdot '' @ [CHR 0x5C] @ ''omega '' @ [CHR 0x5C] @ ''cdot x_1 '' @ [CHR 0x5C, CHR 0x5C] @ ''\<newline>''),
        JStr (''  x_1 + '' @ [CHR 0x5C] @ ''tau '' @ [CHR 0x5C] @ ''cdot '' @ [CHR 0x5C] @ ''omega '' @ [CHR 0x5C] @ ''cdot x_0 '' @ [CHR 0x5C, CHR 0x5C] @ ''\<newline>''),
        JStr ('' 0 '' @ [CHR 0x5C] @ ''end{bmatrix}\<newline>''),
        JStr ''$$\<newline>'',
        JStr ''\<newline>'',
        JStr ''We also generally want to keep\<newline>'',
        JStr ''the ranges of variables represented within an ensemble\<newline>'',
        JStr ''to be approximately the same.\<newline>'',
        JStr ''In this case, if $x_0$ and $x_1$ are between -1 and 1,\<newline>'',
        JStr (''$'' @ [CHR 0x5C] @ ''omega$ will also be between -1 and 1,\<newline>''),
        JStr (''giving a frequency range of $-1 '' @ [CHR 0x5C] @ ''over {2 '' @ [CHR 0x5C] @ ''pi}$ to $1 '' @ [CHR 0x5C] @ ''over {2 '' @ [CHR 0x5C] @ ''pi}$.\<newline>''),
        JStr ''To increase this range,\<newline>'',
        JStr (''we introduce a scaling factor to $'' @ [CHR 0x5C] @ ''omega$ called $'' @ [CHR 0x5C] @ ''omega_{max}$.\<newline>''),
        JStr ''\<newline>'',
        JStr ''$$\<newline>'',
        JStr (''f_{feedback}(x) = '' @ [CHR 0x5C] @ ''begin{bmatrix}\<newline>''),
        JStr (''  x_0 - '' @ [CHR 0x5C] @ ''tau '' @ [CHR 0x5C] @ ''cdot '' @ [CHR 0x5C] @ ''omega '' @ [CHR 0x5C] @ ''cdot '' @ [CHR 0x5C] @ ''omega_{max} '' @ [CHR 0x5C] @ ''cdot x_1 '' @ [CHR 0x5C, CHR 0x5C] @ ''\<newline>''),
        JStr (''  x_1 + '' @ [CHR 0x5C] @ ''tau '' @ [CHR 0x5C] @ ''cdot '' @ [CHR 0x5C] @ ''omega '' @ [CHR 0x5C] @ ''cdot '' @ [CHR 0x5C] @ ''omega_{max} '' @ [CHR 0x5C] @ ''cdot x_0 '' @ [CHR 0x5C, CHR 0x5C] @ ''\<newline>''),
        JStr (''  0 '' @ [CHR 0x5C] @ ''end{bmatrix}\<newline>''),
        JStr ''$$''])]"

definition oscillator_cell_1 :: json where
  "oscillator_cell_1 = JObj [
      (''cell_type'', JStr ''code''),
      (''execution_count'', JNull),
      (''metadata'', JObj []),
      (''outputs'', JArr []),
      (''source'', JArr [
        JStr ''%matplotlib inline\<newline>'',
        JStr ''import matplotlib.pyplot as plt\<newline>'',
        JStr ''\<newline>'',
        JStr ''import nengo\<newline>'',
        JStr ''from nengo.processes import Piecewise''])]"

definition oscillator_cell_2 :: json where
  "oscillator_cell_2 = JObj [
      (''cell_type'', JStr ''markdown''),
      (''metadata'', JObj []),
      (''source'', JArr [
        JStr ''## Step 1: Create the network''])]"

definition oscillator_cell_3 :: json where
  "oscillator_cell_3 = JObj [
      (''cell_type'', JStr ''code''),
      (''execution_count'', JNull),
      (''metadata'', JObj []),
      (''outputs'', JArr []),
      (''source'', JArr [
        JStr ''tau = 0.1  # Post-synaptic time constant for feedback\<newline>'',
        JStr ''w_max = 10  # Maximum frequency is w_max/(2*pi)\<newline>'',
        JStr ''\<newline>'',
        JStr (''model = nengo.Network(label='' @ [CHR 0x27] @ ''Controlled Oscillator'' @ [CHR 0x27] @ '')\<newline>''),
        JStr ''with model:\<newline>'',
        JStr ''    # The ensemble for the oscillator\<newline>'',
        JStr ''    oscillator = nengo.Ensemble(500, dimensions=3, radius=1.7)\<newline>'',
        JStr ''\<newline>'',
        JStr ''    # The feedback connection\<newline>'',
        JStr ''    def feedback(x):\<newline>'',
        JStr ''        x0, x1, w = x  # These are the three variables stored in the ensemble\<newline>'',
        JStr ''        return x0 + w * w_max * tau * x1, x1 - w * w_max * tau * x0, 0\<newline>'',
        JStr ''\<newline>'',
        JStr ''    nengo.Connection(oscillator, oscillator, function=feedback, synapse=tau)\<newline>'',
        JStr ''\<newline>'',
        JStr ''    # The ensemble for controlling the speed of oscillation\<newline>'',
        JStr ''    frequency = nengo.Ensemble(100, dimensions=1)\<newline>'',
        JStr ''\<newline>'',
        JStr ''    nengo.Connection(frequency, oscillator[2])''])]"

definition oscillator_cell_4 :: json where
  "oscillator_cell_4 = JObj [
      (''cell_type'', JStr ''markdown''),
      (''metadata'', JObj []),
      (''source'', JArr [
        JStr ''## Step 2: Create the input''])]"

definition oscillator_cell_5 :: json where
  "oscillator_cell_5 = JObj [
      (''cell_type'', JStr ''code''),
      (''execution_count'', JNull),
      (''metadata'', JObj []),
      (''outputs'', JArr []),
      (''source'', JArr [
        JStr ''with model:\<newline>'',
        JStr ''    # We need a quick input at the beginning to start the oscillator\<newline>'',
        JStr ''    initial = nengo.Node(Piecewise({0: [1, 0, 0], 0.15: [0, 0, 0]}))\<newline>'',
        JStr ''    nengo.Connection(initial, oscillator)\<newline>'',
        JStr ''\<newline>'',
        JStr ''    # Vary the speed over time\<newline>'',
        JStr ''    input_frequency = nengo.Node(\<newline>'',
        JStr ''        Piecewise({\<newline>'',
        JStr ''            0: 1,\<newline>'',
        JStr ''            1: 0.5,\<newline>'',
        JStr ''            2: 0,\<newline>'',
        JStr ''            3: -0.5,\<newline>'',
        JStr ''            4: -1\<newline>'',
        JStr ''        }))\<newline>'',
        JStr ''\<newline>'',
        JStr ''    nengo.Connection(input_frequency, frequency)''])]"

definition oscillator_cell_6 :: json where
  "oscillator_cell_6 = JObj [
      (''cell_type'', JStr ''markdown''),
      (''metadata'', JObj []),
      (''source'', JArr [
        JStr ''## Step 3: Add Probes''])]"

definition oscillator_cell_7 :: json where
  "oscillator_cell_7 = JObj [
      (''cell_type'', JStr ''code''),
      (''execution_count'', JNull),
      (''metadata'', JObj []),
      (''outputs'', JArr []),
      (''source'', JArr [
        JStr ''with model:\<newline>'',
        JStr ''    # Indicate which values to record\<newline>'',
        JStr ''    oscillator_probe = nengo.Probe(oscillator, synapse=0.03)''])]"

definition oscillator_cell_8 :: json where
  "oscillator_cell_8 = JObj [
      (''cell_type'', JStr ''markdown''),
      (''metadata'', JObj []),
      (''source'', JArr [
        JStr ''## Step 4: Run the Model''])]"

definition oscillator_cell_9 :: json where
  "oscillator_cell_9 = JObj [
      (''cell_type'', JStr ''code''),
      (''execution_count'', JNull),
      (''metadata'', JObj []),
      (''outputs'', JArr []),
      (''source'', JArr [
        JStr ''with nengo.Simulator(model) as sim:\<newline>'',
        JStr ''    sim.run(5)''])]"

definition oscillator_cell_10 :: json where
  "oscillator_cell_10 = JObj [
      (''cell_type'', JStr ''markdown''),
      (''metadata'', JObj []),
      (''source'', JArr [
        JStr ''## Step 5: Plot the Results''])]"

definition oscillator_cell_11 :: json where
  "oscillator_cell_11 = JObj [
      (''cell_type'', JStr ''code''),
      (''execution_count'', JNull),
      (''metadata'', JObj []),
      (''outputs'', JArr []),
      (''source'', JArr [
        JStr ''plt.figure()\<newline>'',
        JStr ''plt.plot(sim.trange(), sim.data[oscillator_probe])\<newline>'',
        JStr (''plt.xlabel('' @ [CHR 0x27] @ ''Time (s)'' @ [CHR 0x27] @ '')\<newline>''),
        JStr (''plt.legend(['' @ [CHR 0x27] @ ''$x_0$'' @ [CHR 0x27] @ '', '' @ [CHR 0x27] @ ''$x_1$'' @ [CHR 0x27] @ '', r'' @ [CHR 0x27] @ ''$'' @ [CHR 0x5C] @ ''omega$'' @ [CHR 0x27] @ '']);'')])]"

definition oscillator_ipynb :: json where
  "oscillator_ipynb = JObj [
    (''cells'', JArr [oscillator_cell_0,
      oscillator_cell_1,
      oscillator_cell_2,
      oscillator_cell_3,
      oscillator_cell_4,
      oscillator_cell_5,
      oscillator_cell_6,
      oscillator_cell_7,
      oscillator_cell_8,
      oscillator_cell_9,
      oscillator_cell_10,
      oscillator_cell_11]),
    (''metadata'', JObj [
      (''language_info'', JObj [
        (''name'', JStr ''python''),
        (''pygments_lexer'', JStr ''ipython3'')])]),
    (''nbformat'', JInt 4),
    (''nbformat_minor'', JInt 2)]"

subsection \<open>docs/examples/basic/2d-representation.ipynb\<close>

definition representation_cell_0 :: json where
  "representation_cell_0 = JObj [
      (''cell_type'', JStr ''markdown''),
      (''metadata'', JObj []),
      (''source'', JArr [
        JStr ''# 2-dimensional representation\<newline>'',
        JStr ''\<newline>'',
        JStr ''Ensembles of neurons represent information.\<newline>'',
        JStr ''In Nengo, we represent that information with\<newline>'',
        JStr ''real-valued vectors -- lists of numbers.\<newline>'',
        JStr ''In this example, we will represent a two-dimensional vector\<newline>'',
        JStr ''with a single ensemble of leaky integrate-and-fire neurons.''])]"

definition representation_cell_1 :: json where
  "representation_cell_1 = JObj [
      (''cell_type'', JStr ''markdown''),
      (''metadata'', JObj []),
      (''source'', JArr [
        JStr ''## Step 1: Create the network\<newline>'',
        JStr ''\<newline>'',
        JStr ''Our model consists of a single ensemble,\<newline>'',
        JStr (''which we will call '' @ [CHR 0x60] @ ''Neurons'' @ [CHR 0x60] @ ''.\<newline>''),
        JStr ''It will represent a two-dimensional signal.''])]"

definition representation_cell_2 :: json where
  "representation_cell_2 = JObj [
      (''cell_type'', JStr ''code''),
      (''execution_count'', JNull),
      (''metadata'', JObj []),
      (''outputs'', JArr []),
      (''source'', JArr [
        JStr ''%matplotlib inline\<newline>'',
        JStr ''import matplotlib.pyplot as plt\<newline>'',
        JStr ''import numpy as np\<newline>'',
        JStr ''\<newline>'',
        JStr ''import nengo\<newline>'',
        JStr ''\<newline>'',
        JStr (''model = nengo.Network(label='' @ [CHR 0x27] @ ''2D Representation'' @ [CHR 0x27] @ '')\<newline>''),
        JStr ''with model:\<newline>'',
        JStr ''    # Our ensemble consists of 100 leaky integrate-and-fire neurons,\<newline>'',
        JStr ''    # and represents a 2-dimensional signal\<newline>'',
        JStr ''    neurons = nengo.Ensemble(100, dimensions=2)''])]"

definition representation_cell_3 :: json where
  "representation_cell_3 = JObj [
      (''cell_type'', JStr ''markdown''),
      (''metadata'', JObj []),
      (''source'', JArr [
        JStr ''## Step 2: Provide input to the model\<newline>'',
        JStr ''\<newline>'',
        JStr ''The signal that an ensemble represents varies over time.\<newline>'',
        JStr ''We will use a simple sine and cosine wave\<newline>'',
        JStr ''as examples of continuously changing signals.''])]"

definition representation_cell_4 :: json where
  "representation_cell_4 = JObj [
      (''cell_type'', JStr ''code''),
      (''execution_count'', JNull),
      (''metadata'', JObj []),
      (''outputs'', JArr []),
      (''source'', JArr [
        JStr ''with model:\<newline>'',
        JStr ''    # Create input nodes representing the sine and cosine\<newline>'',
        JStr ''    sin = nengo.Node(output=np.sin)\<newline>'',
        JStr ''    cos = nengo.Node(output=np.cos)''])]"

definition representation_cell_5 :: json where
  "representation_cell_5 = JObj [
      (''cell_type'', JStr ''markdown''),
      (''metadata'', JObj []),
      (''source'', JArr [
        JStr ''## Step 3: Connect the input to the ensemble''])]"

definition representation_cell_6 :: json where
  "representation_cell_6 = JObj [
      (''cell_type'', JStr ''code''),
      (''execution_count'', JNull),
      (''metadata'', JObj []),
      (''outputs'', JArr []),
      (''source'', JArr [
        JStr ''with model:\<newline>'',
        JStr ''    # The indices in neurons define which dimension the input will project to\<newline>'',
        JStr ''    nengo.Connection(sin, neurons[0])\<newline>'',
        JStr ''    nengo.Connection(cos, neurons[1])''])]"

definition representation_cell_7 :: json where
  "representation_cell_7 = JObj [
      (''cell_type'', JStr ''markdown''),
      (''metadata'', JObj []),
      (''source'', JArr [
        JStr ''## Step 4: Probe outputs\<newline>'',
        JStr ''\<newline>'',
        JStr ''Anything that is probed will collect the data it produces over time,\<newline>'',
        JStr ''allowing us to analyze and visualize it later.\<newline>'',
        JStr (''Let'' @ [CHR 0x27] @ ''s collect all the data produced.'')])]"

definition representation_cell_8 :: json where
  "representation_cell_8 = JObj [
      (''cell_type'', JStr ''code''),
      (''execution_count'', JNull),
      (''metadata'', JObj []),
      (''outputs'', JArr []),
      (''source'', JArr [
        JStr ''with model:\<newline>'',
        JStr (''    sin_probe = nengo.Probe(sin, '' @ [CHR 0x27] @ ''output'' @ [CHR 0x27] @ '')\<newline>''),
        JStr (''    cos_probe = nengo.Probe(cos, '' @ [CHR 0x27] @ ''output'' @ [CHR 0x27] @ '')\<newline>''),
        JStr (''    neurons_probe = nengo.Probe(neurons, '' @ [CHR 0x27] @ ''decoded_output'' @ [CHR 0x27] @ '', synapse=0.01)'')])]"

definition representation_cell_9 :: json where
  "representation_cell_9 = JObj [
      (''cell_type'', JStr ''markdown''),
      (''metadata'', JObj []),
      (''source'', JArr [
        JStr ''## Step 5: Run the model\<newline>'',
        JStr ''\<newline>'',
        JStr ''In order to run the model, we have to create a simulator.\<newline>'',
        JStr ''Then, we can run that simulator over and over again\<newline>'',
        JStr ''without affecting the original model.''])]"

definition representation_cell_10 :: json where
  "representation_cell_10 = JObj [
      (''cell_type'', JStr ''code''),
      (''execution_count'', JNull),
      (''metadata'', JObj []),
      (''outputs'', JArr []),
      (''source'', JArr [
        JStr ''with nengo.Simulator(model) as sim:\<newline>'',
        JStr ''    sim.run(5)''])]"

definition representation_cell_11 :: json where
  "representation_cell_11 = JObj [
      (''cell_type'', JStr ''code''),
      (''execution_count'', JNull),
      (''metadata'', JObj []),
      (''outputs'', JArr []),
      (''source'', JArr [
        JStr ''# Plot the decoded output of the ensemble\<newline>'',
        JStr ''plt.figure()\<newline>'',
        JStr (''plt.plot(sim.trange(), sim.data[neurons_probe], label='' @ [CHR 0x22] @ ''Decoded output'' @ [CHR 0x22] @ '')\<newline>''),
        JStr (''plt.plot(sim.trange(), sim.data[sin_probe], '' @ [CHR 0x27] @ ''r'' @ [CHR 0x27] @ '', label='' @ [CHR 0x22] @ ''Sine'' @ [CHR 0x22] @ '')\<newline>''),
        JStr (''plt.plot(sim.trange(), sim.data[cos_probe], '' @ [CHR 0x27] @ ''k'' @ [CHR 0x27] @ '', label='' @ [CHR 0x22] @ ''Cosine'' @ [CHR 0x22] @ '')\<newline>''),
        JStr ''plt.legend()\<newline>'',
        JStr (''plt.xlabel('' @ [CHR 0x27] @ ''time [s]'' @ [CHR 0x27] @ '');'')])]"

definition representation_ipynb :: json where
  "representation_ipynb = JObj [
    (''cells'', JArr [representation_cell_0,
      representation_cell_1,
      representation_cell_2,
      representation_cell_3,
      representation_cell_4,
      representation_cell_5,
      representation_cell_6,
      representation_cell_7,
      representation_cell_8,
      representation_cell_9,
      representation_cell_10,
      representation_cell_11]),
    (''metadata'', JObj [
      (''language_info'', JObj [
        (''name'', JStr ''python''),
        (''pygments_lexer'', JStr ''ipython3'')])]),
    (''nbformat'', JInt 4),
    (''nbformat_minor'', JInt 2)]"


section \<open>Properties of the feedback function\<close>

lemma feedback_length3:
  "length x = 3 \<Longrightarrow>
   feedback x = Inr (x ! 0 + x ! 2 * w_max * tau * x ! 1, x ! 1 - x ! 2 * w_max * tau * x ! 0, 0)"
proof -
  assume len: "length x = 3"
  then obtain a b c where x: "x = [a, b, c]"
    by (cases x; cases "tl x"; cases "tl (tl x)") auto
  show ?thesis
    unfolding x by simp
qed

lemma feedback_error_iff: "feedback x = Inl ValueError \<longleftrightarrow> length x \<noteq> 3"
  by (induction x rule: feedback.induct) simp_all

text \<open>
  C1 (the code departs from the claim). The claim gives \<open>feedback\<close> the closed form of the
  notebook's markdown, \<open>(x0 - w*w_max*tau*x1, x1 + w*w_max*tau*x0, 0)\<close>. The code cell
  carries both signs the other way round: at \<open>x = (1, 1, 1)\<close> it returns \<open>(2, 0, 0)\<close>,
  where the markdown's formula gives \<open>(0, 2, 0)\<close>.
\<close>

theorem feedback_differs_from_markdown:
  "feedback [1, 1, 1] = Inr (2, 0, 0) \<and> f_feedback (1, 1, 1) = (0, 2, 0)"
  by (simp add: f_feedback_def tau_def w_max_def)

text \<open>
  The two agree exactly where the rotation term vanishes: the frequency variable is zero,
  or the represented point is the origin.
\<close>

lemma feedback_agrees_iff:
  "feedback [x0, x1, w] = Inr (f_feedback (x0, x1, w)) \<longleftrightarrow> w = 0 \<or> (x0 = 0 \<and> x1 = 0)"
  by (auto simp add: f_feedback_def tau_def w_max_def)



section \<open>The connections into the oscillator\<close>

lemma delivered_recurrent:
  "length v = 3 \<Longrightarrow> delivered recurrent v =
     Inr [v ! 0 + v ! 2 * w_max * tau * v ! 1, v ! 1 - v ! 2 * w_max * tau * v ! 0, 0]"
  by (simp add: delivered_def recurrent_def feedback_vector_def feedback_length3 as_vector_def
      place_def oscillator_def)

lemma delivered_initial:
  "produces Initial v \<Longrightarrow> delivered initial_to_oscillator v = Inr v \<and> v ! 2 = 0"
  by (auto simp add: delivered_def initial_to_oscillator_def place_def oscillator_def initial_def)

lemma delivered_frequency:
  "delivered frequency_to_oscillator [y] = Inr [0, 0, y]"
  by (simp add: delivered_def frequency_to_oscillator_def place_def oscillator_def numeral_3_eq_3 numeral_2_eq_2)

text \<open>
  C8. The third component of \<open>feedback x\<close> is exactly 0 for every 3-vector \<open>x\<close>, so the
  recurrent connection hands nothing to the third input of the oscillator, the frequency
  variable. Of the connections into the oscillator, the only one that can hand a value
  other than 0 to that input is the one from the frequency ensemble into \<open>oscillator[2]\<close>,
  which hands on the number it carries. (The connection from \<open>initial\<close> also reaches all
  three inputs; the third entry of both its table values is 0.)
\<close>

theorem feedback_third_component_zero:
  "(\<forall>x. length x = 3 \<longrightarrow> (\<exists>a b. feedback x = Inr (a, b, 0)))
   \<and> (\<forall>c v u. c \<in> set connections \<and> post c = Oscillator \<and> produces (pre c) v
          \<and> delivered c v = Inr u \<and> u ! 2 \<noteq> 0 \<longrightarrow> c = frequency_to_oscillator)
   \<and> (\<forall>y. delivered frequency_to_oscillator [y] = Inr [0, 0, y])"
proof (intro conjI allI impI)
  fix x :: "real list"
  assume "length x = 3"
  then show "\<exists>a b. feedback x = Inr (a, b, 0)"
    by (simp add: feedback_length3)
next
  fix c v u
  assume h: "c \<in> set connections \<and> post c = Oscillator \<and> produces (pre c) v
          \<and> delivered c v = Inr u \<and> u ! 2 \<noteq> 0"
  then have mem: "c \<in> set connections" and tgt: "post c = Oscillator"
    and out: "produces (pre c) v" and del: "delivered c v = Inr u" and nz: "u ! 2 \<noteq> 0"
    by simp_all
  from mem consider "c = recurrent" | "c = frequency_to_oscillator"
    | "c = initial_to_oscillator" | "c = input_to_frequency"
    by (auto simp add: connections_def)
  then show "c = frequency_to_oscillator"
  proof cases
    case 1
    with out have "length v = 3" by (simp add: recurrent_def oscillator_def)
    from delivered_recurrent [OF this] del 1 have "u ! 2 = 0" by auto
    with nz show ?thesis by simp
  next
    case 2
    then show ?thesis .
  next
    case 3
    with out have "produces Initial v" by (simp add: initial_to_oscillator_def)
    from delivered_initial [OF this] del 3 have "u ! 2 = 0" by auto
    with nz show ?thesis by simp
  next
    case 4
    with tgt show ?thesis by (simp add: input_to_frequency_def)
  qed
next
  fix y
  show "delivered frequency_to_oscillator [y] = Inr [0, 0, y]"
    by (rule delivered_frequency)
qed

theorem feedback_third_component_zero_witness:
  "length [1, 1, 1 :: real] = 3 \<and> feedback [1, 1, 1] = Inr (2, 0, 0)
   \<and> frequency_to_oscillator \<in> set connections \<and> post frequency_to_oscillator = Oscillator
   \<and> produces (pre frequency_to_oscillator) [1]
   \<and> delivered frequency_to_oscillator [1] = Inr [0, 0, 1] \<and> [0, 0, 1 :: real] ! 2 \<noteq> 0"
  using feedback_third_component_zero
  by (simp add: connections_def frequency_to_oscillator_def frequency_def tau_def w_max_def)

section \<open>The control input\<close>

lemma input_frequency_values:
  "0 \<le> t \<Longrightarrow> piecewise input_frequency t =
     Some (if t < 1 then 1 else if t < 2 then 1 / 2 else if t < 3 then 0
           else if t < 4 then - (1 / 2) else - 1)"
  by (simp add: piecewise_def input_frequency_def)

lemma input_frequency_before: "t < 0 \<Longrightarrow> piecewise input_frequency t = None"
  by (simp add: piecewise_def input_frequency_def)

text \<open>
  C9. The control input \<open>input_frequency\<close> is piecewise constant with breakpoints at
  \<open>t = 0, 1, 2, 3, 4\<close>, where it takes the values \<open>1, 0.5, 0, -0.5, -1\<close>; over simulated
  time (\<open>t \<ge> 0\<close>) it never increases.
\<close>

theorem input_frequency_non_increasing:
  "0 \<le> s \<and> s \<le> t \<longrightarrow>
     piecewise input_frequency t =
       Some (if t < 1 then 1 else if t < 2 then 1 / 2 else if t < 3 then 0
             else if t < 4 then - (1 / 2) else - 1)
   \<and> (\<exists>a b. piecewise input_frequency s = Some a \<and> piecewise input_frequency t = Some b \<and> b \<le> a)"
proof (intro impI conjI)
  assume h: "0 \<le> s \<and> s \<le> t"
  then have s: "0 \<le> s" and t: "0 \<le> t" and st: "s \<le> t" by simp_all
  show "piecewise input_frequency t =
       Some (if t < 1 then 1 else if t < 2 then 1 / 2 else if t < 3 then 0
             else if t < 4 then - (1 / 2) else - 1)"
    by (rule input_frequency_values [OF t])
  show "\<exists>a b. piecewise input_frequency s = Some a \<and> piecewise input_frequency t = Some b \<and> b \<le> a"
    using st by (simp add: input_frequency_values [OF s] input_frequency_values [OF t])
qed

theorem input_frequency_non_increasing_witness:
  "(0::real) \<le> 1 / 2 \<and> (1 / 2 :: real) \<le> 7 / 2
   \<and> piecewise input_frequency (1 / 2) = Some 1
   \<and> piecewise input_frequency (7 / 2) = Some (- (1 / 2))"
  using input_frequency_non_increasing [of "1 / 2" "7 / 2"]
  by (simp add: piecewise_def input_frequency_def)

section \<open>The oscillator probe\<close>




section \<open>The notebook documents and their code\<close>

lemmas oscillator_cells =
  oscillator_cell_0_def oscillator_cell_1_def oscillator_cell_2_def oscillator_cell_3_def
  oscillator_cell_4_def oscillator_cell_5_def oscillator_cell_6_def oscillator_cell_7_def
  oscillator_cell_8_def oscillator_cell_9_def oscillator_cell_10_def oscillator_cell_11_def

lemmas representation_cells =
  representation_cell_0_def representation_cell_1_def representation_cell_2_def
  representation_cell_3_def representation_cell_4_def representation_cell_5_def
  representation_cell_6_def representation_cell_7_def representation_cell_8_def
  representation_cell_9_def representation_cell_10_def representation_cell_11_def

lemma oscillator_code_lines:
  "code_lines oscillator_ipynb =
    [''%matplotlib inline\<newline>'',
     ''import matplotlib.pyplot as plt\<newline>'',
     ''\<newline>'',
     ''import nengo\<newline>'',
     ''from nengo.processes import Piecewise'',
     ''tau = 0.1  # Post-synaptic time constant for feedback\<newline>'',
     ''w_max = 10  # Maximum frequency is w_max/(2*pi)\<newline>'',
     ''\<newline>'',
     ''model = nengo.Network(label='' @ [CHR 0x27] @ ''Controlled Oscillator'' @ [CHR 0x27] @ '')\<newline>'',
     ''with model:\<newline>'',
     ''    # The ensemble for the oscillator\<newline>'',
     ''    oscillator = nengo.Ensemble(500, dimensions=3, radius=1.7)\<newline>'',
     ''\<newline>'',
     ''    # The feedback connection\<newline>'',
     ''    def feedback(x):\<newline>'',
     ''        x0, x1, w = x  # These are the three variables stored in the ensemble\<newline>'',
     ''        return x0 + w * w_max * tau * x1, x1 - w * w_max * tau * x0, 0\<newline>'',
     ''\<newline>'',
     ''    nengo.Connection(oscillator, oscillator, function=feedback, synapse=tau)\<newline>'',
     ''\<newline>'',
     ''    # The ensemble for controlling the speed of oscillation\<newline>'',
     ''    frequency = nengo.Ensemble(100, dimensions=1)\<newline>'',
     ''\<newline>'',
     ''    nengo.Connection(frequency, oscillator[2])'',
     ''with model:\<newline>'',
     ''    # We need a quick input at the beginning to start the oscillator\<newline>'',
     ''    initial = nengo.Node(Piecewise({0: [1, 0, 0], 0.15: [0, 0, 0]}))\<newline>'',
     ''    nengo.Connection(initial, oscillator)\<newline>'',
     ''\<newline>'',
     ''    # Vary the speed over time\<newline>'',
     ''    input_frequency = nengo.Node(\<newline>'',
     ''        Piecewise({\<newline>'',
     ''            0: 1,\<newline>'',
     ''            1: 0.5,\<newline>'',
     ''            2: 0,\<newline>'',
     ''            3: -0.5,\<newline>'',
     ''            4: -1\<newline>'',
     ''        }))\<newline>'',
     ''\<newline>'',
     ''    nengo.Connection(input_frequency, frequency)'',
     ''with model:\<newline>'',
     ''    # Indicate which values to record\<newline>'',
     ''    oscillator_probe = nengo.Probe(oscillator, synapse=0.03)'',
     ''with nengo.Simulator(model) as sim:\<newline>'',
     ''    sim.run(5)'',
     ''plt.figure()\<newline>'',
     ''plt.plot(sim.trange(), sim.data[oscillator_probe])\<newline>'',
     ''plt.xlabel('' @ [CHR 0x27] @ ''Time (s)'' @ [CHR 0x27] @ '')\<newline>'',
     ''plt.legend(['' @ [CHR 0x27] @ ''$x_0$'' @ [CHR 0x27] @ '', '' @ [CHR 0x27] @ ''$x_1$'' @ [CHR 0x27] @ '', r'' @ [CHR 0x27] @ ''$'' @ [CHR 0x5C] @ ''omega$'' @ [CHR 0x27] @ '']);'']"
  by (simp add: code_lines_def cells_def oscillator_ipynb_def is_code_def oscillator_cells source_def)

lemma representation_code_lines:
  "code_lines representation_ipynb =
    [''%matplotlib inline\<newline>'',
     ''import matplotlib.pyplot as plt\<newline>'',
     ''import numpy as np\<newline>'',
     ''\<newline>'',
     ''import nengo\<newline>'',
     ''\<newline>'',
     ''model = nengo.Network(label='' @ [CHR 0x27] @ ''2D Representation'' @ [CHR 0x27] @ '')\<newline>'',
     ''with model:\<newline>'',
     ''    # Our ensemble consists of 100 leaky integrate-and-fire neurons,\<newline>'',
     ''    # and represents a 2-dimensional signal\<newline>'',
     ''    neurons = nengo.Ensemble(100, dimensions=2)'',
     ''with model:\<newline>'',
     ''    # Create input nodes representing the sine and cosine\<newline>'',
     ''    sin = nengo.Node(output=np.sin)\<newline>'',
     ''    cos = nengo.Node(output=np.cos)'',
     ''with model:\<newline>'',
     ''    # The indices in neurons define which dimension the input will project to\<newline>'',
     ''    nengo.Connection(sin, neurons[0])\<newline>'',
     ''    nengo.Connection(cos, neurons[1])'',
     ''with model:\<newline>'',
     ''    sin_probe = nengo.Probe(sin, '' @ [CHR 0x27] @ ''output'' @ [CHR 0x27] @ '')\<newline>'',
     ''    cos_probe = nengo.Probe(cos, '' @ [CHR 0x27] @ ''output'' @ [CHR 0x27] @ '')\<newline>'',
     ''    neurons_probe = nengo.Probe(neurons, '' @ [CHR 0x27] @ ''decoded_output'' @ [CHR 0x27] @ '', synapse=0.01)'',
     ''with nengo.Simulator(model) as sim:\<newline>'',
     ''    sim.run(5)'',
     ''# Plot the decoded output of the ensemble\<newline>'',
     ''plt.figure()\<newline>'',
     ''plt.plot(sim.trange(), sim.data[neurons_probe], label='' @ [CHR 0x22] @ ''Decoded output'' @ [CHR 0x22] @ '')\<newline>'',
     ''plt.plot(sim.trange(), sim.data[sin_probe], '' @ [CHR 0x27] @ ''r'' @ [CHR 0x27] @ '', label='' @ [CHR 0x22] @ ''Sine'' @ [CHR 0x22] @ '')\<newline>'',
     ''plt.plot(sim.trange(), sim.data[cos_probe], '' @ [CHR 0x27] @ ''k'' @ [CHR 0x27] @ '', label='' @ [CHR 0x22] @ ''Cosine'' @ [CHR 0x22] @ '')\<newline>'',
     ''plt.legend()\<newline>'',
     ''plt.xlabel('' @ [CHR 0x27] @ ''time [s]'' @ [CHR 0x27] @ '');'']"
  by (simp add: code_lines_def cells_def representation_ipynb_def is_code_def representation_cells source_def)

lemmas text_defs = defined_functions_def def_name_def starts_with_def lstrip_def
  List.map_filter_def assignments_def


text \<open>
  C6 (the claim as stated fails). The claim has no executable code of the repository
  implement the feedback function. The code of the controlled-oscillator notebook
  defines a function \<open>feedback\<close>, and the line that computes its result is among the
  notebook's code lines.
\<close>

theorem feedback_is_executable_code:
  "''feedback'' \<in> set (defined_functions oscillator_ipynb)
   \<and> ''        return x0 + w * w_max * tau * x1, x1 - w * w_max * tau * x0, 0\<newline>''
       \<in> set (code_lines oscillator_ipynb)"
  by (simp add: oscillator_code_lines text_defs)

text \<open>
  C6, amended. The markdown derives the feedback function as background, and the
  controlled-oscillator notebook implements it in executable code of its own: its code
  defines \<open>feedback\<close>, the only function either notebook defines, and passes it as
  \<open>function=feedback\<close> to the recurrent connection from the oscillator to itself. The
  2D-representation notebook defines no function.
\<close>

theorem feedback_defined_by_notebook:
  "defined_functions oscillator_ipynb = [''feedback'']
   \<and> defined_functions representation_ipynb = []
   \<and> ''    nengo.Connection(oscillator, oscillator, function=feedback, synapse=tau)\<newline>''
       \<in> set (code_lines oscillator_ipynb)"
  by (simp add: oscillator_code_lines representation_code_lines text_defs)

text \<open>
  The markdown of the controlled-oscillator notebook states the feedback function with
  a minus sign in its first row and a plus sign in its second: the two rows of its last
  formula, as the document has them. \<open>f_feedback\<close> above is that formula.
\<close>

lemma markdown_feedback_formula:
  "(''  x_0 - '' @ [CHR 0x5C] @ ''tau '' @ [CHR 0x5C] @ ''cdot '' @ [CHR 0x5C] @ ''omega '' @ [CHR 0x5C] @ ''cdot '' @ [CHR 0x5C] @ ''omega_{max} '' @ [CHR 0x5C] @ ''cdot x_1 '' @ [CHR 0x5C, CHR 0x5C] @ ''\<newline>'')
     \<in> set (markdown_lines oscillator_ipynb)
   \<and> (''  x_1 + '' @ [CHR 0x5C] @ ''tau '' @ [CHR 0x5C] @ ''cdot '' @ [CHR 0x5C] @ ''omega '' @ [CHR 0x5C] @ ''cdot '' @ [CHR 0x5C] @ ''omega_{max} '' @ [CHR 0x5C] @ ''cdot x_0 '' @ [CHR 0x5C, CHR 0x5C] @ ''\<newline>'')
     \<in> set (markdown_lines oscillator_ipynb)"
  by (simp add: markdown_lines_def cells_def oscillator_ipynb_def is_markdown_def
      oscillator_cells source_def)

text \<open>
  The notebook assigns \<open>tau\<close> and \<open>w_max\<close> once each, in the lines before \<open>feedback\<close> is
  defined: the two names \<open>feedback\<close> reads besides its argument are constants.
\<close>

lemma tau_w_max_assigned_once:
  "assignments ''tau'' oscillator_ipynb = [''tau = 0.1  # Post-synaptic time constant for feedback\<newline>'']
 \<and> assignments ''w_max'' oscillator_ipynb = [''w_max = 10  # Maximum frequency is w_max/(2*pi)\<newline>'']"
  by (simp add: oscillator_code_lines text_defs)

text \<open>
  Each notebook calls \<open>sim.run\<close> once, with the argument 5. The time grid of the run
  (the step size, and the times at which a probe records) is the library's.
\<close>

lemma sim_run_called_once:
  "filter (contains ''sim.run'') (code_lines oscillator_ipynb) = [''    sim.run(5)'']
 \<and> filter (contains ''sim.run'') (code_lines representation_ipynb) = [''    sim.run(5)'']"
  by (simp add: oscillator_code_lines representation_code_lines starts_with_def)

end
